theory Spec2Isabelle
  imports Main "HOL-Library.List_Lexorder"
begin

section \<open>The stock ledger of \<open>app.py\<close>\<close>

text \<open>
  The program keeps two SQLite tables, \<open>stock\<close> and \<open>transactions\<close>, and serves
  the handlers \<open>add_item\<close>, \<open>checkout\<close>, \<open>receive\<close>, \<open>reverse_transaction\<close> and
  \<open>job_usage\<close>. Each handler is modelled as a function from the database before the
  request to a response and the database after it. A handler that returns early has
  executed no \<open>UPDATE\<close> or \<open>INSERT\<close>, so it hands back the database it was given.

  A statement that the SQLite driver refuses raises an exception in \<open>conn.execute\<close>.
  The handlers catch nothing: the request ends with the status 500, \<open>conn.commit()\<close>
  is not reached, and closing the connection rolls back what the request had written.
  The model answers \<open>ServerError\<close> and hands back the database it was given.

  Integers are Python's unbounded integers. The conversion of the JSON body into typed
  fields (\<open>int(...)\<close>, \<open>float(...)\<close>) and the column \<open>created_at\<close>, which no
  handler reads, are not modelled.
\<close>

subsection \<open>Values that SQLite takes\<close>

text \<open>
  An INTEGER is a signed 64-bit number; the driver raises \<open>OverflowError\<close> for a
  Python integer outside that range.
\<close>

definition int64 :: "int \<Rightarrow> bool" where
  "int64 n \<longleftrightarrow> - (2 ^ 63) \<le> n \<and> n < 2 ^ 63"

text \<open>
  A Python string is the list of its code points. The driver stores a string as
  UTF-8 and raises \<open>UnicodeEncodeError\<close> for one that holds a surrogate, which has no
  encoding. \<open>ascii\<close> writes a literal of the source.
\<close>

type_synonym pystr = "int list"

definition ascii :: "string \<Rightarrow> pystr" where
  "ascii cs = map of_char cs"

definition text_ok :: "pystr \<Rightarrow> bool" where
  "text_ok xs \<longleftrightarrow> list_all (\<lambda>c. \<not> (0xD800 \<le> c \<and> c \<le> 0xDFFF)) xs"

subsection \<open>Prices\<close>

text \<open>
  \<open>unit_price\<close> is a Python \<open>float\<close> stored in a \<open>REAL NOT NULL\<close> column. The model
  does not fix the arithmetic of floats: the type of prices is a parameter \<open>'p\<close>, and
  the float operations the handlers use are the fields of a record that every handler
  doing arithmetic takes as its first argument.

  SQLite stores NaN as NULL, which the column refuses, and stores the negative zero
  as zero; so a price read from the table is a number, and prices are compared as
  numbers. Then \<open>float(v or 0)\<close>, which replaces a zero by \<open>0.0\<close> and changes nothing
  else, is the identity on a stored price.
\<close>

record 'p float_ops =
  fzero :: 'p                             \<comment> \<open>\<open>0.0\<close>\<close>
  fless :: "'p \<Rightarrow> 'p \<Rightarrow> bool"              \<comment> \<open>\<open>x < y\<close>\<close>
  fnan :: "'p \<Rightarrow> bool"                    \<comment> \<open>\<open>x\<close> is NaN\<close>
  imul :: "int \<Rightarrow> 'p \<Rightarrow> 'p"              \<comment> \<open>\<open>n * x\<close> for an integer \<open>n\<close>\<close>
  fadd :: "'p \<Rightarrow> 'p \<Rightarrow> 'p"               \<comment> \<open>\<open>x + y\<close>\<close>
  round2 :: "'p \<Rightarrow> 'p"                    \<comment> \<open>\<open>round(x, 2)\<close>\<close>

text \<open>
  An instance to run the model on: prices counted in whole cents, where the product
  with an integer and the sum are exact and rounding to two decimals changes nothing.
\<close>

definition cent_ops :: "int float_ops" where
  "cent_ops = \<lparr>fzero = 0, fless = (\<lambda>x y. x < y), fnan = (\<lambda>x. False),
               imul = (\<lambda>n x. n * x), fadd = (\<lambda>x y. x + y), round2 = (\<lambda>x. x)\<rparr>"

subsection \<open>Tables\<close>

record 'p stock_row =
  s_id :: int
  s_name :: pystr
  s_quantity :: int
  s_min_level :: int
  s_unit_price :: 'p
  s_supplier :: pystr
  s_reorder_qty :: int

text \<open>
  The column \<open>action\<close> is only ever set to and compared with three literals of the
  source, and is written as its bytes.
\<close>

record 'p tx_row =
  t_id :: int
  t_item_id :: int
  t_change_qty :: int
  t_job_no :: "pystr option"
  t_action :: string
  t_unit_price :: 'p
  t_reversed_from :: "int option"
  t_is_reversed :: int

text \<open>
  A table is the list of its rows in insertion order. Both keys are
  \<open>INTEGER PRIMARY KEY AUTOINCREMENT\<close>: the database remembers the last key it issued
  for each table and gives the next row that key plus one.
\<close>

record 'p db =
  stock :: "'p stock_row list"
  transactions :: "'p tx_row list"
  stock_seq :: int
  tx_seq :: int

definition empty_db :: "'p db" where
  "empty_db = \<lparr>stock = [], transactions = [], stock_seq = 0, tx_seq = 0\<rparr>"

text \<open>\<open>SELECT * FROM stock WHERE id=?\<close> with \<open>fetchone()\<close>.\<close>

definition find_item :: "'p db \<Rightarrow> int \<Rightarrow> 'p stock_row option" where
  "find_item s i = find (\<lambda>r. s_id r = i) (stock s)"

text \<open>\<open>SELECT * FROM transactions WHERE id=?\<close> with \<open>fetchone()\<close>.\<close>

definition find_tx :: "'p db \<Rightarrow> int \<Rightarrow> 'p tx_row option" where
  "find_tx s i = find (\<lambda>t. t_id t = i) (transactions s)"

text \<open>\<open>UPDATE stock SET quantity=? WHERE id=?\<close>, and whether the driver takes its parameters.\<close>

definition set_quantity :: "'p db \<Rightarrow> int \<Rightarrow> int \<Rightarrow> 'p db" where
  "set_quantity s i q =
     s\<lparr>stock := map (\<lambda>r. if s_id r = i then r\<lparr>s_quantity := q\<rparr> else r) (stock s)\<rparr>"

definition update_binds :: "int \<Rightarrow> int \<Rightarrow> bool" where
  "update_binds q i \<longleftrightarrow> int64 q \<and> int64 i"

text \<open>
  \<open>INSERT INTO transactions(item_id, change_qty, job_no, action, unit_price,
  reversed_from, is_reversed)\<close>; the two last columns default to NULL and 0. The
  statement fails when the driver refuses a parameter, and with \<open>SQLITE_FULL\<close> when
  the largest key has been issued.
\<close>

definition insert_tx ::
  "'p db \<Rightarrow> int \<Rightarrow> int \<Rightarrow> pystr option \<Rightarrow> string \<Rightarrow> 'p \<Rightarrow> int option \<Rightarrow> 'p db" where
  "insert_tx s item chg job act price rf =
     s\<lparr>transactions := transactions s @
          [\<lparr>t_id = tx_seq s + 1, t_item_id = item, t_change_qty = chg, t_job_no = job,
            t_action = act, t_unit_price = price, t_reversed_from = rf,
            t_is_reversed = 0\<rparr>],
       tx_seq := tx_seq s + 1\<rparr>"

definition insert_tx_binds :: "'p db \<Rightarrow> int \<Rightarrow> int \<Rightarrow> pystr option \<Rightarrow> int option \<Rightarrow> bool" where
  "insert_tx_binds s item chg job rf \<longleftrightarrow>
     int64 item \<and> int64 chg \<and>
     (case job of None \<Rightarrow> True | Some j \<Rightarrow> text_ok j) \<and>
     (case rf of None \<Rightarrow> True | Some k \<Rightarrow> int64 k) \<and>
     int64 (tx_seq s + 1)"

text \<open>
  \<open>INSERT INTO stock(name, quantity, min_level, unit_price, supplier, reorder_qty)\<close>.
  A NaN price is stored as NULL and fails the \<open>NOT NULL\<close> constraint.
\<close>

definition insert_stock ::
  "'p db \<Rightarrow> pystr \<Rightarrow> int \<Rightarrow> int \<Rightarrow> 'p \<Rightarrow> pystr \<Rightarrow> int \<Rightarrow> 'p db" where
  "insert_stock s nm q m p su rq =
     s\<lparr>stock := stock s @
          [\<lparr>s_id = stock_seq s + 1, s_name = nm, s_quantity = q, s_min_level = m,
            s_unit_price = p, s_supplier = su, s_reorder_qty = rq\<rparr>],
       stock_seq := stock_seq s + 1\<rparr>"

definition insert_stock_binds ::
  "'p float_ops \<Rightarrow> 'p db \<Rightarrow> pystr \<Rightarrow> int \<Rightarrow> int \<Rightarrow> 'p \<Rightarrow> pystr \<Rightarrow> int \<Rightarrow> bool" where
  "insert_stock_binds F s nm q m p su rq \<longleftrightarrow>
     text_ok nm \<and> int64 q \<and> int64 m \<and> \<not> fnan F p \<and> text_ok su \<and> int64 rq \<and>
     int64 (stock_seq s + 1)"

subsection \<open>Request fields\<close>

text \<open>
  \<open>str.strip()\<close> removes the leading and the trailing characters for which
  \<open>str.isspace()\<close> holds: the code points below.
\<close>

definition is_space :: "int \<Rightarrow> bool" where
  "is_space c \<longleftrightarrow> c \<in> set [0x09, 0x0A, 0x0B, 0x0C, 0x0D, 0x1C, 0x1D, 0x1E, 0x1F, 0x20,
                            0x85, 0xA0, 0x1680,
                            0x2000, 0x2001, 0x2002, 0x2003, 0x2004, 0x2005, 0x2006, 0x2007,
                            0x2008, 0x2009, 0x200A,
                            0x2028, 0x2029, 0x202F, 0x205F, 0x3000]"

definition strip :: "pystr \<Rightarrow> pystr" where
  "strip xs = rev (dropWhile is_space (rev (dropWhile is_space xs)))"

text \<open>\<open>data.get(key, d)\<close>: \<open>None\<close> is a key that the request body does not have.\<close>

fun get_or :: "'a \<Rightarrow> 'a option \<Rightarrow> 'a" where
  "get_or d None = d"
| "get_or d (Some v) = v"

subsection \<open>Responses\<close>

text \<open>
  The error responses, by the status and the message the handler returns:
  \<^item> \<open>Unauthorized\<close>: 401;
  \<^item> \<open>InvalidInput\<close>: 400 with \<open>name is required\<close>, \<open>values cannot be negative\<close>,
    \<open>item_id and quantity must be > 0\<close>, \<open>job_no is required\<close> or
    \<open>transaction_id must be > 0\<close>;
  \<^item> \<open>NotFound\<close>: 404;
  \<^item> \<open>InsufficientStock\<close>: 400 with \<open>not enough stock\<close>;
  \<^item> \<open>InvalidReversal\<close>: 400 with \<open>cannot reverse a reverse transaction\<close>
    (\<open>Chained\<close>), \<open>transaction already reversed\<close> (\<open>AlreadyReversed\<close>) or
    \<open>reversal would make stock negative\<close> (\<open>WouldGoNegative\<close>);
  \<^item> \<open>ItemMissing\<close>: 400 with \<open>item for this transaction no longer exists\<close>;
  \<^item> \<open>ServerError\<close>: 500, an exception of the driver.
\<close>

datatype reversal_reason = Chained | AlreadyReversed | WouldGoNegative

datatype error =
  Unauthorized | InvalidInput | NotFound | InsufficientStock
| InvalidReversal reversal_reason | ItemMissing | ServerError

text \<open>
  The messages of the four success responses end in the same three characters of the
  source file, U+201A, U+00FA and U+00D6.
\<close>

definition mark :: pystr where
  "mark = [0x201A, 0xFA, 0xD6]"

record 'p checkout_result =
  co_message :: pystr
  new_quantity :: int
  low_stock_alert :: bool
  unit_price_at_time :: 'p
  line_value :: 'p

record 'p receive_result =
  rc_message :: pystr
  rc_new_quantity :: int
  rc_unit_price_at_time :: 'p

record reverse_result =
  rv_message :: pystr
  rv_item_id :: int
  rv_new_quantity :: int
  rv_reversed_from :: int

text \<open>The body of the 201 response of \<open>add_item\<close> has the one field \<open>message\<close>.\<close>

record add_result =
  message :: pystr

subsection \<open>The handlers\<close>

definition add_item ::
  "'p float_ops \<Rightarrow> bool \<Rightarrow> 'p db \<Rightarrow> pystr option \<Rightarrow> int option \<Rightarrow> int option \<Rightarrow>
   'p option \<Rightarrow> pystr option \<Rightarrow> int option \<Rightarrow> (error + add_result) \<times> 'p db" where
  "add_item F auth s name_f quantity_f min_level_f unit_price_f supplier_f reorder_qty_f =
     (if \<not> auth then (Inl Unauthorized, s)
      else
        let name = strip (get_or [] name_f);
            quantity = get_or 0 quantity_f;
            min_level = get_or 0 min_level_f;
            unit_price = get_or (fzero F) unit_price_f;
            supplier = strip (get_or [] supplier_f);
            reorder_qty = get_or 0 reorder_qty_f
        in if name = [] then (Inl InvalidInput, s)
           else if quantity < 0 \<or> min_level < 0 \<or> fless F unit_price (fzero F) \<or>
                   reorder_qty < 0
             then (Inl InvalidInput, s)
           else if \<not> insert_stock_binds F s name quantity min_level unit_price supplier
                       reorder_qty
             then (Inl ServerError, s)
           else (Inr \<lparr>message = ascii ''Item added '' @ mark\<rparr>,
                 insert_stock s name quantity min_level unit_price supplier reorder_qty))"

definition checkout ::
  "'p float_ops \<Rightarrow> bool \<Rightarrow> 'p db \<Rightarrow> int \<Rightarrow> int \<Rightarrow> pystr \<Rightarrow>
   (error + 'p checkout_result) \<times> 'p db" where
  "checkout F auth s item_id qty job_f =
     (if \<not> auth then (Inl Unauthorized, s)
      else
        let job_no = strip job_f
        in if item_id \<le> 0 \<or> qty \<le> 0 then (Inl InvalidInput, s)
           else if job_no = [] then (Inl InvalidInput, s)
           else if \<not> int64 item_id then (Inl ServerError, s)
           else case find_item s item_id of
                  None \<Rightarrow> (Inl NotFound, s)
                | Some item \<Rightarrow>
                    if s_quantity item < qty then (Inl InsufficientStock, s)
                    else
                      let new_qty = s_quantity item - qty;
                          unit_price = s_unit_price item
                      in if \<not> update_binds new_qty item_id then (Inl ServerError, s)
                         else
                           let s1 = set_quantity s item_id new_qty
                           in if \<not> insert_tx_binds s1 item_id (- qty) (Some job_no) None
                                then (Inl ServerError, s)
                              else
                                let s2 = insert_tx s1 item_id (- qty) (Some job_no)
                                           ''checkout'' unit_price None
                                in (Inr \<lparr>co_message = ascii ''Checked out '' @ mark,
                                          new_quantity = new_qty,
                                          low_stock_alert = (new_qty \<le> s_min_level item),
                                          unit_price_at_time = unit_price,
                                          line_value = round2 F (imul F qty unit_price)\<rparr>,
                                    s2))"

definition receive ::
  "bool \<Rightarrow> 'p db \<Rightarrow> int \<Rightarrow> int \<Rightarrow> (error + 'p receive_result) \<times> 'p db" where
  "receive auth s item_id qty =
     (if \<not> auth then (Inl Unauthorized, s)
      else if item_id \<le> 0 \<or> qty \<le> 0 then (Inl InvalidInput, s)
      else if \<not> int64 item_id then (Inl ServerError, s)
      else case find_item s item_id of
             None \<Rightarrow> (Inl NotFound, s)
           | Some item \<Rightarrow>
               let new_qty = s_quantity item + qty;
                   unit_price = s_unit_price item
               in if \<not> update_binds new_qty item_id then (Inl ServerError, s)
                  else
                    let s1 = set_quantity s item_id new_qty
                    in if \<not> insert_tx_binds s1 item_id qty None None
                         then (Inl ServerError, s)
                       else
                         let s2 = insert_tx s1 item_id qty None ''receive'' unit_price None
                         in (Inr \<lparr>rc_message = ascii ''Received '' @ mark,
                                   rc_new_quantity = new_qty,
                                   rc_unit_price_at_time = unit_price\<rparr>, s2))"

text \<open>
  \<open>SELECT 1 FROM transactions WHERE action='reverse' AND reversed_from=? LIMIT 1\<close>
  returns a row.
\<close>

definition already_reversed :: "'p db \<Rightarrow> int \<Rightarrow> bool" where
  "already_reversed s tx_id \<longleftrightarrow>
     list_ex (\<lambda>t. t_action t = ''reverse'' \<and> t_reversed_from t = Some tx_id)
       (transactions s)"

definition reverse_transaction ::
  "bool \<Rightarrow> 'p db \<Rightarrow> int \<Rightarrow> (error + reverse_result) \<times> 'p db" where
  "reverse_transaction auth s tx_id =
     (if \<not> auth then (Inl Unauthorized, s)
      else if tx_id \<le> 0 then (Inl InvalidInput, s)
      else if \<not> int64 tx_id then (Inl ServerError, s)
      else case find_tx s tx_id of
             None \<Rightarrow> (Inl NotFound, s)
           | Some tx \<Rightarrow>
               if t_action tx = ''reverse'' then (Inl (InvalidReversal Chained), s)
               else if already_reversed s tx_id
                 then (Inl (InvalidReversal AlreadyReversed), s)
               else if \<not> int64 (t_item_id tx) then (Inl ServerError, s)
               else (case find_item s (t_item_id tx) of
                      None \<Rightarrow> (Inl ItemMissing, s)
                    | Some item \<Rightarrow>
                        let original_change = t_change_qty tx;
                            reverse_change = - original_change;
                            new_qty = s_quantity item + reverse_change
                        in if new_qty < 0 then (Inl (InvalidReversal WouldGoNegative), s)
                           else
                             let unit_price_at_time = t_unit_price tx
                             in if \<not> update_binds new_qty (t_item_id tx)
                                  then (Inl ServerError, s)
                                else
                                  let s1 = set_quantity s (t_item_id tx) new_qty
                                  in if \<not> insert_tx_binds s1 (t_item_id tx) reverse_change
                                             (t_job_no tx) (Some tx_id)
                                       then (Inl ServerError, s)
                                     else
                                       let s2 = insert_tx s1 (t_item_id tx) reverse_change
                                                  (t_job_no tx) ''reverse''
                                                  unit_price_at_time (Some tx_id)
                                       in (Inr \<lparr>rv_message =
                                                   ascii ''Transaction reversed '' @ mark,
                                                 rv_item_id = t_item_id tx,
                                                 rv_new_quantity = new_qty,
                                                 rv_reversed_from = tx_id\<rparr>, s2)))"

subsection \<open>Job usage\<close>

text \<open>
  The query of \<open>_job_usage\<close>, clause by clause. \<open>selected\<close> is the \<open>WHERE\<close> clause on
  the transactions (a NULL \<open>job_no\<close> equals nothing), \<open>joined\<close> the
  \<open>JOIN stock s ON s.id = t.item_id\<close>, \<open>group_key\<close> the \<open>GROUP BY s.id, s.name,
  t.unit_price\<close>, and \<open>usage_rows\<close> builds one row for each group with
  \<open>SUM(t.change_qty)\<close> and sorts the rows for \<open>ORDER BY s.name\<close>. SQLite compares
  names byte by byte in UTF-8, which is the lexicographic order on code points.

  \<open>SUM\<close> adds 64-bit integers one row after the other, and the query fails with
  \<open>integer overflow\<close> when an addition leaves the range (\<open>sum64\<close>); SQLite visits the
  rows of a group in table order. SQL leaves the order of rows with equal names open:
  SQLite forms the groups in the order of their keys and keeps that order among
  equal names (\<open>key_le\<close>, \<open>sort_by\<close>).
\<close>

fun sum64_from :: "int \<Rightarrow> int list \<Rightarrow> int option" where
  "sum64_from a [] = Some a"
| "sum64_from a (v # vs) = (if int64 (a + v) then sum64_from (a + v) vs else None)"

definition sum64 :: "int list \<Rightarrow> int option" where
  "sum64 vs = sum64_from 0 vs"

fun insort_by :: "('a \<Rightarrow> 'a \<Rightarrow> bool) \<Rightarrow> 'a \<Rightarrow> 'a list \<Rightarrow> 'a list" where
  "insort_by le x [] = [x]"
| "insort_by le x (y # ys) = (if le x y then x # y # ys else y # insort_by le x ys)"

definition sort_by :: "('a \<Rightarrow> 'a \<Rightarrow> bool) \<Rightarrow> 'a list \<Rightarrow> 'a list" where
  "sort_by le xs = foldr (insort_by le) xs []"

definition key_le :: "'p float_ops \<Rightarrow> int \<times> pystr \<times> 'p \<Rightarrow> int \<times> pystr \<times> 'p \<Rightarrow> bool" where
  "key_le F k1 k2 \<longleftrightarrow>
     fst k1 < fst k2 \<or>
     (fst k1 = fst k2 \<and>
        (fst (snd k1) < fst (snd k2) \<or>
         (fst (snd k1) = fst (snd k2) \<and> \<not> fless F (snd (snd k2)) (snd (snd k1)))))"

record 'p usage_group =
  g_item_id :: int
  g_name :: pystr
  g_unit_price :: 'p
  g_sum_change :: int

definition selected :: "'p db \<Rightarrow> pystr \<Rightarrow> 'p tx_row list" where
  "selected s job_no =
     filter (\<lambda>t. t_job_no t = Some job_no \<and>
                  (t_action t = ''checkout'' \<or> t_action t = ''reverse''))
       (transactions s)"

definition joined :: "'p db \<Rightarrow> pystr \<Rightarrow> ('p stock_row \<times> 'p tx_row) list" where
  "joined s job_no =
     concat (map (\<lambda>t. map (\<lambda>r. (r, t)) (filter (\<lambda>r. s_id r = t_item_id t) (stock s)))
                 (selected s job_no))"

definition group_key :: "'p stock_row \<times> 'p tx_row \<Rightarrow> int \<times> pystr \<times> 'p" where
  "group_key x = (s_id (fst x), s_name (fst x), t_unit_price (snd x))"

definition group_row ::
  "('p stock_row \<times> 'p tx_row) list \<Rightarrow> int \<times> pystr \<times> 'p \<Rightarrow> 'p usage_group option" where
  "group_row jn k =
     map_option
       (\<lambda>sm. \<lparr>g_item_id = fst k, g_name = fst (snd k), g_unit_price = snd (snd k),
               g_sum_change = sm\<rparr>)
       (sum64 (map (\<lambda>x. t_change_qty (snd x)) (filter (\<lambda>x. group_key x = k) jn)))"

text \<open>The rows of the query, or \<open>None\<close> when it fails.\<close>

definition usage_rows :: "'p float_ops \<Rightarrow> 'p db \<Rightarrow> pystr \<Rightarrow> 'p usage_group list option" where
  "usage_rows F s job_no =
     (if \<not> text_ok job_no then None
      else
        let jn = joined s job_no;
            keys = sort_by (key_le F) (remdups (map group_key jn))
        in map_option (sort_key g_name) (those (map (group_row jn) keys)))"

record 'p usage_item =
  u_item_id :: int
  u_name :: pystr
  u_net_qty :: int
  u_unit_price :: 'p
  u_line_total :: 'p

text \<open>
  The loop \<open>for r in rows\<close> with its two accumulators \<open>items\<close> and \<open>total\<close> (here
  \<open>total_v\<close>). The sum of a group is an integer and its price a number, so
  \<open>int(r["sum_change"] or 0)\<close> and \<open>float(r["unit_price"] or 0.0)\<close> change nothing.
\<close>

fun usage_loop ::
  "'p float_ops \<Rightarrow> 'p usage_group list \<Rightarrow> 'p usage_item list \<Rightarrow> 'p \<Rightarrow>
   'p usage_item list \<times> 'p" where
  "usage_loop F [] items total_v = (items, total_v)"
| "usage_loop F (r # rows) items total_v =
     (let sum_change = g_sum_change r;
          net_qty = - sum_change;
          unit_price = g_unit_price r;
          line_total = round2 F (imul F net_qty unit_price)
      in usage_loop F rows
           (items @ [\<lparr>u_item_id = g_item_id r, u_name = g_name r, u_net_qty = net_qty,
                      u_unit_price = unit_price, u_line_total = line_total\<rparr>])
           (fadd F total_v line_total))"

text \<open>\<open>_job_usage\<close>: the items and the total, or \<open>None\<close> when the query fails.\<close>

definition job_usage_core ::
  "'p float_ops \<Rightarrow> 'p db \<Rightarrow> pystr \<Rightarrow> ('p usage_item list \<times> 'p) option" where
  "job_usage_core F s job_no =
     (case usage_rows F s job_no of
        None \<Rightarrow> None
      | Some rows \<Rightarrow>
          (case usage_loop F rows [] (fzero F) of
             (items, total_v) \<Rightarrow> Some (items, round2 F total_v)))"

text \<open>
  The response of \<open>job_usage\<close> without \<open>generated_at\<close>, the wall-clock time of the
  request. The handler writes nothing, so it returns a response only.
\<close>

record 'p usage_report =
  ur_job_no :: pystr
  ur_total_value :: 'p
  ur_items :: "'p usage_item list"

definition job_usage ::
  "'p float_ops \<Rightarrow> bool \<Rightarrow> 'p db \<Rightarrow> pystr \<Rightarrow> error + 'p usage_report" where
  "job_usage F auth s job_f =
     (if \<not> auth then Inl Unauthorized
      else
        let job_no = strip job_f
        in if job_no = [] then Inl InvalidInput
           else case job_usage_core F s job_no of
                  None \<Rightarrow> Inl ServerError
                | Some (items, total_v) \<Rightarrow>
                    if items = [] then Inl NotFound
                    else Inr \<lparr>ur_job_no = job_no, ur_total_value = total_v,
                              ur_items = items\<rparr>)"

subsection \<open>Histories\<close>

text \<open>
  A request to one of the four writing handlers, with the outcome of \<open>require_auth\<close>
  as its first component. \<open>run\<close> serves a list of requests from the empty database.
\<close>

datatype 'p call =
  AddItem "pystr option" "int option" "int option" "'p option" "pystr option" "int option"
| Checkout int int pystr
| Receive int int
| Reverse int

fun exec :: "'p float_ops \<Rightarrow> 'p db \<Rightarrow> bool \<times> 'p call \<Rightarrow> 'p db" where
  "exec F s (auth, AddItem n q m p su rq) = snd (add_item F auth s n q m p su rq)"
| "exec F s (auth, Checkout i q j) = snd (checkout F auth s i q j)"
| "exec F s (auth, Receive i q) = snd (receive auth s i q)"
| "exec F s (auth, Reverse k) = snd (reverse_transaction auth s k)"

definition run :: "'p float_ops \<Rightarrow> (bool \<times> 'p call) list \<Rightarrow> 'p db" where
  "run F cs = foldl (exec F) empty_db cs"





subsection \<open>Example histories\<close>

text \<open>
  An item with 100 in stock at 10.00 (1000 cents); two checkouts for job \<open>J1\<close>, a
  receipt of 10 and a checkout of 100 for job \<open>J2\<close>, which leaves 2 in stock.
\<close>

definition hist1 :: "(bool \<times> int call) list" where
  "hist1 = [(True, AddItem (Some (ascii ''Bolt'')) (Some 100) None (Some 1000) None None),
            (True, Checkout 1 5 (ascii ''J1'')),
            (True, Checkout 1 3 (ascii ''J1'')),
            (True, Receive 1 10),
            (True, Checkout 1 100 (ascii ''J2''))]"

subsection \<open>Creation quantities\<close>





section \<open>Outcomes of the handlers\<close>

lemma find_item_Some: "find_item s i = Some it \<Longrightarrow> it \<in> set (stock s) \<and> s_id it = i"
  unfolding find_item_def by (auto simp: find_Some_iff in_set_conv_nth)

lemma find_item_None: "find_item s i = None \<longleftrightarrow> i \<notin> s_id ` set (stock s)"
  unfolding find_item_def by (auto simp: find_None_iff)

lemma find_tx_Some: "find_tx s k = Some tx \<Longrightarrow> tx \<in> set (transactions s) \<and> t_id tx = k"
  unfolding find_tx_def by (auto simp: find_Some_iff in_set_conv_nth)

lemma find_tx_None: "find_tx s k = None \<longleftrightarrow> k \<notin> t_id ` set (transactions s)"
  unfolding find_tx_def by (auto simp: find_None_iff)

lemma checkout_Inr:
  assumes "checkout F auth s i q j = (Inr res, s')"
  shows "\<exists>it. auth \<and> 0 < i \<and> 0 < q \<and> strip j \<noteq> [] \<and> int64 i \<and>
           find_item s i = Some it \<and> q \<le> s_quantity it \<and>
           update_binds (s_quantity it - q) i \<and>
           insert_tx_binds (set_quantity s i (s_quantity it - q)) i (- q)
             (Some (strip j)) None \<and>
           s' = insert_tx (set_quantity s i (s_quantity it - q)) i (- q) (Some (strip j))
                  ''checkout'' (s_unit_price it) None \<and>
           res = \<lparr>co_message = ascii ''Checked out '' @ mark,
                  new_quantity = s_quantity it - q,
                  low_stock_alert = (s_quantity it - q \<le> s_min_level it),
                  unit_price_at_time = s_unit_price it,
                  line_value = round2 F (imul F q (s_unit_price it))\<rparr>"
  using assms by (auto simp: checkout_def Let_def split: if_splits option.splits)

lemma checkout_Inl: "checkout F auth s i q j = (Inl e, s') \<Longrightarrow> s' = s"
  by (auto simp: checkout_def Let_def split: if_splits option.splits)

lemma receive_Inr:
  assumes "receive auth s i q = (Inr res, s')"
  shows "\<exists>it. auth \<and> 0 < i \<and> 0 < q \<and> int64 i \<and> find_item s i = Some it \<and>
           update_binds (s_quantity it + q) i \<and>
           insert_tx_binds (set_quantity s i (s_quantity it + q)) i q None None \<and>
           s' = insert_tx (set_quantity s i (s_quantity it + q)) i q None
                  ''receive'' (s_unit_price it) None \<and>
           res = \<lparr>rc_message = ascii ''Received '' @ mark,
                  rc_new_quantity = s_quantity it + q,
                  rc_unit_price_at_time = s_unit_price it\<rparr>"
  using assms by (auto simp: receive_def Let_def split: if_splits option.splits)

lemma receive_Inl: "receive auth s i q = (Inl e, s') \<Longrightarrow> s' = s"
  by (auto simp: receive_def Let_def split: if_splits option.splits)

lemma reverse_Inr:
  assumes "reverse_transaction auth s k = (Inr res, s')"
  shows "\<exists>tx it. auth \<and> 0 < k \<and> int64 k \<and> find_tx s k = Some tx \<and>
           t_action tx \<noteq> ''reverse'' \<and> \<not> already_reversed s k \<and>
           find_item s (t_item_id tx) = Some it \<and>
           0 \<le> s_quantity it - t_change_qty tx \<and>
           update_binds (s_quantity it - t_change_qty tx) (t_item_id tx) \<and>
           insert_tx_binds
             (set_quantity s (t_item_id tx) (s_quantity it - t_change_qty tx))
             (t_item_id tx) (- t_change_qty tx) (t_job_no tx) (Some k) \<and>
           s' = insert_tx (set_quantity s (t_item_id tx) (s_quantity it - t_change_qty tx))
                  (t_item_id tx) (- t_change_qty tx) (t_job_no tx) ''reverse''
                  (t_unit_price tx) (Some k) \<and>
           res = \<lparr>rv_message = ascii ''Transaction reversed '' @ mark,
                  rv_item_id = t_item_id tx,
                  rv_new_quantity = s_quantity it - t_change_qty tx,
                  rv_reversed_from = k\<rparr>"
  using assms
  by (auto simp: reverse_transaction_def Let_def split: if_splits option.splits)

lemma reverse_Inl: "reverse_transaction auth s k = (Inl e, s') \<Longrightarrow> s' = s"
  by (auto simp: reverse_transaction_def Let_def split: if_splits option.splits)

lemma add_item_Inr:
  assumes "add_item F auth s n q m p su rq = (Inr res, s')"
  shows "auth \<and> strip (get_or [] n) \<noteq> [] \<and> 0 \<le> get_or 0 q \<and> 0 \<le> get_or 0 m \<and>
         \<not> fless F (get_or (fzero F) p) (fzero F) \<and> 0 \<le> get_or 0 rq \<and>
         insert_stock_binds F s (strip (get_or [] n)) (get_or 0 q) (get_or 0 m)
           (get_or (fzero F) p) (strip (get_or [] su)) (get_or 0 rq) \<and>
         s' = insert_stock s (strip (get_or [] n)) (get_or 0 q) (get_or 0 m)
                (get_or (fzero F) p) (strip (get_or [] su)) (get_or 0 rq) \<and>
         res = \<lparr>message = ascii ''Item added '' @ mark\<rparr>"
  using assms by (auto simp: add_item_def Let_def split: if_splits)

lemma add_item_Inl: "add_item F auth s n q m p su rq = (Inl e, s') \<Longrightarrow> s' = s"
  by (auto simp: add_item_def Let_def split: if_splits)


text \<open>Every request leaves the database alone, or books a change of one item, or adds an item.\<close>

lemma exec_cases:
  obtains (same) "exec F s c = s"
  | (ledger) i it chg job act price rf where
      "find_item s i = Some it" "0 \<le> s_quantity it \<Longrightarrow> 0 \<le> s_quantity it + chg"
      "rf \<noteq> None \<Longrightarrow> act = ''reverse''"
      "update_binds (s_quantity it + chg) i"
      "insert_tx_binds (set_quantity s i (s_quantity it + chg)) i chg job rf"
      "exec F s c = insert_tx (set_quantity s i (s_quantity it + chg)) i chg job act price rf"
  | (create) nm q m p su rq where
      "0 \<le> q" "insert_stock_binds F s nm q m p su rq"
      "exec F s c = insert_stock s nm q m p su rq"
proof -
  obtain auth cl where c: "c = (auth, cl)" by (cases c)
  show ?thesis
  proof (cases cl)
    case (AddItem n q m p su rq)
    obtain r s' where rs: "add_item F auth s n q m p su rq = (r, s')"
      by (cases "add_item F auth s n q m p su rq")
    show ?thesis
    proof (cases r)
      case (Inl e)
      with rs have "s' = s" using add_item_Inl by metis
      with rs c AddItem show ?thesis by (intro same) simp
    next
      case (Inr res)
      from add_item_Inr[OF rs[unfolded Inr]] rs c AddItem
      show ?thesis by (intro create[of "get_or 0 q"]) auto
    qed
  next
    case (Checkout i q j)
    obtain r s' where rs: "checkout F auth s i q j = (r, s')"
      by (cases "checkout F auth s i q j")
    show ?thesis
    proof (cases r)
      case (Inl e)
      with rs have "s' = s" using checkout_Inl by metis
      with rs c Checkout show ?thesis by (intro same) simp
    next
      case (Inr res)
      from checkout_Inr[OF rs[unfolded Inr]] obtain it where
        it: "find_item s i = Some it" "q \<le> s_quantity it"
        "update_binds (s_quantity it - q) i"
        "insert_tx_binds (set_quantity s i (s_quantity it - q)) i (- q) (Some (strip j)) None"
        "s' = insert_tx (set_quantity s i (s_quantity it - q)) i (- q) (Some (strip j))
                ''checkout'' (s_unit_price it) None"
        by blast
      show ?thesis
        by (rule ledger[of i it "- q" None "''checkout''" "Some (strip j)" "s_unit_price it"])
           (use it rs c Checkout in auto)
    qed
  next
    case (Receive i q)
    obtain r s' where rs: "receive auth s i q = (r, s')"
      by (cases "receive auth s i q")
    show ?thesis
    proof (cases r)
      case (Inl e)
      with rs have "s' = s" using receive_Inl by metis
      with rs c Receive show ?thesis by (intro same) simp
    next
      case (Inr res)
      from receive_Inr[OF rs[unfolded Inr]] obtain it where
        it: "find_item s i = Some it" "0 < q"
        "update_binds (s_quantity it + q) i"
        "insert_tx_binds (set_quantity s i (s_quantity it + q)) i q None None"
        "s' = insert_tx (set_quantity s i (s_quantity it + q)) i q None
                ''receive'' (s_unit_price it) None"
        by blast
      show ?thesis
        by (rule ledger[of i it q None "''receive''" None "s_unit_price it"])
           (use it rs c Receive in auto)
    qed
  next
    case (Reverse k)
    obtain r s' where rs: "reverse_transaction auth s k = (r, s')"
      by (cases "reverse_transaction auth s k")
    show ?thesis
    proof (cases r)
      case (Inl e)
      with rs have "s' = s" using reverse_Inl by metis
      with rs c Reverse show ?thesis by (intro same) simp
    next
      case (Inr res)
      from reverse_Inr[OF rs[unfolded Inr]] obtain tx it where
        it: "find_tx s k = Some tx" "find_item s (t_item_id tx) = Some it"
        "0 \<le> s_quantity it - t_change_qty tx"
        "update_binds (s_quantity it - t_change_qty tx) (t_item_id tx)"
        "insert_tx_binds
           (set_quantity s (t_item_id tx) (s_quantity it - t_change_qty tx))
           (t_item_id tx) (- t_change_qty tx) (t_job_no tx) (Some k)"
        "s' = insert_tx (set_quantity s (t_item_id tx) (s_quantity it - t_change_qty tx))
                (t_item_id tx) (- t_change_qty tx) (t_job_no tx) ''reverse''
                (t_unit_price tx) (Some k)"
        by blast
      show ?thesis
        by (rule ledger[of "t_item_id tx" it "- t_change_qty tx" "Some k" "''reverse''"
              "t_job_no tx" "t_unit_price tx"])
           (use it rs c Reverse in auto)
    qed
  qed
qed

section \<open>Invariants of the tables\<close>

lemma set_quantity_simps [simp]:
  "stock (set_quantity s i q) = map (\<lambda>r. if s_id r = i then r\<lparr>s_quantity := q\<rparr> else r) (stock s)"
  "transactions (set_quantity s i q) = transactions s"
  "stock_seq (set_quantity s i q) = stock_seq s"
  "tx_seq (set_quantity s i q) = tx_seq s"
  by (simp_all add: set_quantity_def)

lemma insert_tx_simps [simp]:
  "stock (insert_tx s i chg job act price rf) = stock s"
  "transactions (insert_tx s i chg job act price rf) = transactions s @
     [\<lparr>t_id = tx_seq s + 1, t_item_id = i, t_change_qty = chg, t_job_no = job,
       t_action = act, t_unit_price = price, t_reversed_from = rf, t_is_reversed = 0\<rparr>]"
  "stock_seq (insert_tx s i chg job act price rf) = stock_seq s"
  "tx_seq (insert_tx s i chg job act price rf) = tx_seq s + 1"
  by (simp_all add: insert_tx_def)

lemma insert_stock_simps [simp]:
  "stock (insert_stock s nm q m p su rq) = stock s @
     [\<lparr>s_id = stock_seq s + 1, s_name = nm, s_quantity = q, s_min_level = m,
       s_unit_price = p, s_supplier = su, s_reorder_qty = rq\<rparr>]"
  "transactions (insert_stock s nm q m p su rq) = transactions s"
  "stock_seq (insert_stock s nm q m p su rq) = stock_seq s + 1"
  "tx_seq (insert_stock s nm q m p su rq) = tx_seq s"
  by (simp_all add: insert_stock_def)

lemma run_Nil: "run F [] = empty_db"
  by (simp add: run_def)

lemma run_snoc: "run F (cs @ [c]) = exec F (run F cs) c"
  by (simp add: run_def)

lemma exec_nonneg:
  assumes "\<forall>r \<in> set (stock s). 0 \<le> s_quantity r"
  shows "\<forall>r \<in> set (stock (exec F s c)). 0 \<le> s_quantity r"
proof (cases rule: exec_cases[of F s c])
  case same
  with assms show ?thesis by simp
next
  case (ledger i it chg job act price rf)
  from ledger(1) have "it \<in> set (stock s)" by (simp add: find_item_Some)
  with assms ledger(2) have "0 \<le> s_quantity it + chg" by blast
  with assms ledger(6) show ?thesis by auto
next
  case (create nm q m p su rq)
  with assms show ?thesis by auto
qed

lemma run_nonneg: "\<forall>r \<in> set (stock (run F cs)). 0 \<le> s_quantity r"
proof (induction cs rule: rev_induct)
  case Nil
  show ?case by (simp add: run_Nil empty_db_def)
next
  case (snoc c cs)
  then show ?case unfolding run_snoc by (rule exec_nonneg)
qed






section \<open>Stock is never negative\<close>

text \<open>
  Claim C1. In every database that a sequence of requests produces from the empty one,
  the quantity of every stock item is at least 0. A request whose effect would be a
  negative quantity (a checkout of more than there is, a receipt of a negative amount
  large enough, a reversal that takes back more than there is, a new item with a
  negative quantity) is answered with an error, and the database stays as it was.
\<close>

theorem quantity_never_negative:
  "(\<forall>r \<in> set (stock (run F cs)). 0 \<le> s_quantity r) \<and>
   (\<forall>it. find_item (run F cs) ci = Some it \<and> s_quantity it - cq < 0 \<longrightarrow>
      (\<exists>e. checkout F auth (run F cs) ci cq cj = (Inl e, run F cs))) \<and>
   (\<forall>it. find_item (run F cs) ri = Some it \<and> s_quantity it + rq < 0 \<longrightarrow>
      (\<exists>e. receive auth (run F cs) ri rq = (Inl e, run F cs))) \<and>
   (\<forall>tx it. find_tx (run F cs) k = Some tx \<and>
        find_item (run F cs) (t_item_id tx) = Some it \<and>
        s_quantity it - t_change_qty tx < 0 \<longrightarrow>
      (\<exists>e. reverse_transaction auth (run F cs) k = (Inl e, run F cs))) \<and>
   (get_or 0 qf < 0 \<longrightarrow>
      (\<exists>e. add_item F auth (run F cs) n qf m p su rqf = (Inl e, run F cs)))"
proof (intro conjI allI impI)
  show "\<forall>r \<in> set (stock (run F cs)). 0 \<le> s_quantity r" by (rule run_nonneg)
next
  fix it assume "find_item (run F cs) ci = Some it \<and> s_quantity it - cq < 0"
  then show "\<exists>e. checkout F auth (run F cs) ci cq cj = (Inl e, run F cs)"
    by (auto simp: checkout_def Let_def)
next
  fix it assume h: "find_item (run F cs) ri = Some it \<and> s_quantity it + rq < 0"
  then have "it \<in> set (stock (run F cs))" using find_item_Some by blast
  then have "0 \<le> s_quantity it" using run_nonneg by blast
  with h have "rq \<le> 0" by linarith
  then show "\<exists>e. receive auth (run F cs) ri rq = (Inl e, run F cs)"
    by (auto simp: receive_def)
next
  fix tx it
  assume "find_tx (run F cs) k = Some tx \<and>
        find_item (run F cs) (t_item_id tx) = Some it \<and>
        s_quantity it - t_change_qty tx < 0"
  then show "\<exists>e. reverse_transaction auth (run F cs) k = (Inl e, run F cs)"
    by (auto simp: reverse_transaction_def Let_def)
next
  assume "get_or 0 qf < 0"
  then show "\<exists>e. add_item F auth (run F cs) n qf m p su rqf = (Inl e, run F cs)"
    by (auto simp: add_item_def Let_def)
qed

theorem quantity_never_negative_witness:
  "map s_quantity (stock (run cent_ops hist1)) = [2] \<and>
   (\<exists>e. checkout cent_ops True (run cent_ops hist1) 1 3 (ascii ''J1'') =
          (Inl e, run cent_ops hist1)) \<and>
   (\<exists>e. receive True (run cent_ops hist1) 1 (- 5) = (Inl e, run cent_ops hist1)) \<and>
   (\<exists>e. reverse_transaction True (run cent_ops hist1) 3 = (Inl e, run cent_ops hist1)) \<and>
   (\<exists>e. add_item cent_ops True (run cent_ops hist1) (Some (ascii ''Nut'')) (Some (- 1)) None None
          None None = (Inl e, run cent_ops hist1))"
proof -
  have st: "stock (run cent_ops hist1) =
      [\<lparr>s_id = 1, s_name = ascii ''Bolt'', s_quantity = 2, s_min_level = 0, s_unit_price = 1000,
        s_supplier = [], s_reorder_qty = 0\<rparr>]"
    by code_simp
  have it: "find_item (run cent_ops hist1) 1 =
      Some \<lparr>s_id = 1, s_name = ascii ''Bolt'', s_quantity = 2, s_min_level = 0,
            s_unit_price = 1000, s_supplier = [], s_reorder_qty = 0\<rparr>"
    by (simp add: find_item_def st)
  have tx: "find_tx (run cent_ops hist1) 3 =
      Some \<lparr>t_id = 3, t_item_id = 1, t_change_qty = 10, t_job_no = None,
            t_action = ''receive'', t_unit_price = 1000, t_reversed_from = None,
            t_is_reversed = 0\<rparr>"
    by code_simp
  note th = quantity_never_negative [of cent_ops hist1 1 3 True "ascii ''J1''" 1 "- 5" 3
      "Some (- 1)" "Some (ascii ''Nut'')" None None None None]
  from th st it tx show ?thesis by simp
qed

section \<open>Quantity and ledger\<close>
















section \<open>Checkout\<close>








section \<open>Adding an item\<close>




end
